theory Spec2Isabelle
  imports Main "HOL-Library.AList"
begin

section \<open>Option kinds and option configuration (decorators.ts)\<close>

text \<open>
  The string-literal union that discord.js uses for the \<^verbatim>\<open>type\<close> field of an
  application command option. \<^verbatim>\<open>OptionMetadataTypes\<close> of the source is this union
  without the two \<^verbatim>\<open>SUB_\<close> members. Every member is a non-empty string, so
  \<^verbatim>\<open>config.type\<close> is falsy exactly when the field is absent.
\<close>

datatype OptionType =
  SUB_COMMAND | SUB_COMMAND_GROUP | STRING | INTEGER | BOOLEAN
  | USER | CHANNEL | ROLE | MENTIONABLE | NUMBER

fun typeName :: "OptionType \<Rightarrow> string" where
  "typeName SUB_COMMAND = ''SUB_COMMAND''"
| "typeName SUB_COMMAND_GROUP = ''SUB_COMMAND_GROUP''"
| "typeName STRING = ''STRING''"
| "typeName INTEGER = ''INTEGER''"
| "typeName BOOLEAN = ''BOOLEAN''"
| "typeName USER = ''USER''"
| "typeName CHANNEL = ''CHANNEL''"
| "typeName ROLE = ''ROLE''"
| "typeName MENTIONABLE = ''MENTIONABLE''"
| "typeName NUMBER = ''NUMBER''"

text \<open>
  \<^verbatim>\<open>Partial<OptionConfig>\<close>: every field is optional. The fields the code reads or
  overwrites are explicit (\<^verbatim>\<open>type\<close>, \<^verbatim>\<open>force\<close>, \<^verbatim>\<open>name\<close>); all the others
  (description, required, choices, ...) travel unchanged in \<open>cfg_rest\<close>.
\<close>

record 'r OptionConfig =
  cfg_type :: "OptionType option"
  cfg_force :: "bool option"
  cfg_name :: "string option"
  cfg_rest :: 'r

record 'r OptionMetadata =
  opt_name :: string
  opt_index :: nat
  opt_config :: "'r OptionConfig"

record CommandMetadata =
  cmd_name :: string
  cmd_description :: string
  cmd_defaultPermission :: "bool option"

text \<open>
  The value that \<^verbatim>\<open>getParamType\<close> hands back for a parameter: the constructor that
  the compiler recorded for the declared type, or \<^verbatim>\<open>undefined\<close> when it recorded
  none. \<open>OtherClass\<close> is any further constructor function, by its name
  (\<^verbatim>\<open>TextChannel\<close>, \<^verbatim>\<open>Date\<close>, \<^verbatim>\<open>Object\<close>, ...).
\<close>

datatype ParamType =
  String | Boolean | Number | Role | User | GuildMember | GuildChannel
  | Function | OtherClass string | Undefined

text \<open>
  \<^verbatim>\<open>GuildChannel.constructor\<close>: \<^verbatim>\<open>GuildChannel\<close> is a class, that is a function
  object, with no \<^verbatim>\<open>constructor\<close> property of its own or of the classes it extends;
  the lookup ends at \<^verbatim>\<open>Function.prototype.constructor\<close>, which is \<^verbatim>\<open>Function\<close>.
\<close>

definition GuildChannel_constructor :: ParamType where
  "GuildChannel_constructor = Function"

text \<open>
  \<^verbatim>\<open>x instanceof C\<close> for the values of \<open>ParamType\<close>: every constructor is a function
  object, so \<^verbatim>\<open>Function.prototype\<close> is on its prototype chain; a constructor is an
  instance of no class of the library, and \<^verbatim>\<open>undefined\<close> is an instance of nothing.
\<close>

fun instanceof :: "ParamType \<Rightarrow> ParamType \<Rightarrow> bool" where
  "instanceof Undefined c = False"
| "instanceof x c = (c = Function)"

text \<open>The object a parameter decorator receives as \<^verbatim>\<open>target\<close>: the prototype of the
  decorated class. \<open>classId\<close> is the identity of the class, \<open>extendsCommand\<close> is
  \<^verbatim>\<open>target instanceof Command\<close>, \<open>paramTypes\<close> are the declared types of the
  parameters of \<^verbatim>\<open>run\<close>.\<close>

record Target =
  classId :: nat
  constructorName :: string
  extendsCommand :: bool
  paramTypes :: "ParamType list"

datatype PropertyKey = PString string | PSymbol string

fun propertyToString :: "PropertyKey \<Rightarrow> string" where
  "propertyToString (PString s) = s"
| "propertyToString (PSymbol d) = ''Symbol('' @ d @ '')''"

datatype ConfigError =
  OptionNotOnRun PropertyKey
  | OptionNotOnCommand string
  | NumberTypeMissing
  | NumberTypeInvalid OptionType
  | UnsupportedDataType
  | TypeMismatch OptionType OptionType
  | DataNotOnCommand

datatype ErrorClass = JSError | JSTypeError

fun errorClass :: "ConfigError \<Rightarrow> ErrorClass" where
  "errorClass (OptionNotOnRun p) = JSError"
| "errorClass (OptionNotOnCommand n) = JSError"
| "errorClass e = JSTypeError"

fun errorMessage :: "ConfigError \<Rightarrow> string" where
  "errorMessage (OptionNotOnRun p) =
     ''The @option() decorator can only be used on the .run method. You used it on ''
       @ propertyToString p"
| "errorMessage (OptionNotOnCommand n) =
     ''You can only use @option() on a class extending Command! You used '' @ n"
| "errorMessage NumberTypeMissing = ''You must specify a type for numbers in the config!''"
| "errorMessage (NumberTypeInvalid t) =
     ''Number type must be either NUMBER or INTEGER. Received '' @ typeName t"
| "errorMessage UnsupportedDataType = ''Unsupported data type.''"
| "errorMessage (TypeMismatch found inferred) =
     ''Type mismatch. Found '' @ typeName found @ '' in the config, but inferred ''
       @ typeName inferred @ ''! Enable force mode in if this was a mistake.''"
| "errorMessage DataNotOnCommand =
     ''You can only use @name() on a class that extends Command!''"

subsection \<open>The Metadata Store (reflection.ts)\<close>

record 'r StoreEntry =
  entry_options :: "'r OptionMetadata list"
  entry_data :: "CommandMetadata option"

type_synonym 'r MetadataStore = "nat \<Rightarrow> 'r StoreEntry option"

text \<open>Modelled from the spec: reflection.ts is not among the sources. \<^verbatim>\<open>getParamType\<close>
  yields the declared type of the parameter of \<^verbatim>\<open>run\<close> at the index, and
  \<^verbatim>\<open>undefined\<close> where none is recorded.\<close>

definition getParamType :: "Target \<Rightarrow> nat \<Rightarrow> ParamType" where
  "getParamType target index =
     (if index < length (paramTypes target) then paramTypes target ! index else Undefined)"

text \<open>Modelled from the spec: reflection.ts is not among the sources. \<^verbatim>\<open>addOption\<close>
  appends the descriptor to the entry of the class, creating the entry on the first write.\<close>

definition addOption :: "'r MetadataStore \<Rightarrow> Target \<Rightarrow> 'r OptionMetadata \<Rightarrow> 'r MetadataStore" where
  "addOption store target meta =
     store(classId target \<mapsto>
       (case store (classId target) of
          None \<Rightarrow> \<lparr>entry_options = [meta], entry_data = None\<rparr>
        | Some e \<Rightarrow> e\<lparr>entry_options := entry_options e @ [meta]\<rparr>))"

text \<open>Modelled from the spec: reflection.ts is not among the sources.
  \<^verbatim>\<open>addCommandData\<close> writes or replaces the class-level metadata of the class.\<close>

definition addCommandData :: "'r MetadataStore \<Rightarrow> Target \<Rightarrow> CommandMetadata \<Rightarrow> 'r MetadataStore" where
  "addCommandData store target d =
     store(classId target \<mapsto>
       (case store (classId target) of
          None \<Rightarrow> \<lparr>entry_options = [], entry_data = Some d\<rparr>
        | Some e \<Rightarrow> e\<lparr>entry_data := Some d\<rparr>))"

text \<open>The options collected so far for a class: those of its entry, none while the
  class has no entry.\<close>

definition storedOptions :: "'r MetadataStore \<Rightarrow> nat \<Rightarrow> 'r OptionMetadata list" where
  "storedOptions store c = (case store c of None \<Rightarrow> [] | Some e \<Rightarrow> entry_options e)"

subsection \<open>The option decorator\<close>

definition isNumOrInt :: "OptionType \<Rightarrow> bool" where
  "isNumOrInt val = (val \<in> set [NUMBER, INTEGER])"

text \<open>The \<^verbatim>\<open>switch (true)\<close> of \<^verbatim>\<open>option\<close>: the case expressions are tried in the
  order of the source and the first one that is true is taken.\<close>

definition chooseType :: "ParamType \<Rightarrow> 'r OptionConfig \<Rightarrow> ConfigError + OptionType" where
  "chooseType type config =
     (if type = String then Inr STRING
      else if type = Boolean then Inr BOOLEAN
      else if type = Number then
        (case cfg_type config of
           None \<Rightarrow> Inl NumberTypeMissing
         | Some t \<Rightarrow> if \<not> isNumOrInt t then Inl (NumberTypeInvalid t) else Inr t)
      else if type = Role then Inr ROLE
      else if type = User \<or> type = GuildMember then Inr USER
      else if instanceof type GuildChannel_constructor then Inr CHANNEL
      else Inl UnsupportedDataType)"

definition option ::
  "string \<Rightarrow> 'r OptionConfig \<Rightarrow> Target \<Rightarrow> PropertyKey \<Rightarrow> nat \<Rightarrow> 'r MetadataStore
     \<Rightarrow> ConfigError + 'r MetadataStore" where
  "option name config target property index store =
     (if property \<noteq> PString ''run'' then Inl (OptionNotOnRun property)
      else if \<not> extendsCommand target then Inl (OptionNotOnCommand (constructorName target))
      else
        (case chooseType (getParamType target index) config of
           Inl e \<Rightarrow> Inl e
         | Inr chosenType \<Rightarrow>
             (case cfg_type config of
                Some t \<Rightarrow>
                  if chosenType \<noteq> t \<and> cfg_force config \<noteq> Some True
                  then Inl (TypeMismatch t chosenType)
                  else Inr (addOption store target
                         \<lparr>opt_name = name, opt_index = index,
                          opt_config = config\<lparr>cfg_type := Some chosenType\<rparr>\<rparr>)
              | None \<Rightarrow>
                  Inr (addOption store target
                         \<lparr>opt_name = name, opt_index = index,
                          opt_config = config\<lparr>cfg_type := Some chosenType\<rparr>\<rparr>))))"

definition forced ::
  "string \<Rightarrow> 'r OptionConfig \<Rightarrow> Target \<Rightarrow> PropertyKey \<Rightarrow> nat \<Rightarrow> 'r MetadataStore
     \<Rightarrow> ConfigError + 'r MetadataStore" where
  "forced name config = option name (config\<lparr>cfg_force := Some True\<rparr>)"

text \<open>The class decorator \<^verbatim>\<open>data\<close>; \<open>extendsCommand\<close> is
  \<^verbatim>\<open>target.prototype instanceof Command\<close>.\<close>

definition data ::
  "string \<Rightarrow> string \<Rightarrow> bool option \<Rightarrow> Target \<Rightarrow> 'r MetadataStore
     \<Rightarrow> ConfigError + 'r MetadataStore" where
  "data name description defaultPermission target store =
     (if \<not> extendsCommand target then Inl DataNotOnCommand
      else Inr (addCommandData store target
             \<lparr>cmd_name = name, cmd_description = description,
              cmd_defaultPermission = defaultPermission\<rparr>))"

text \<open>Modelled from the spec: how the parameter decorators of one \<^verbatim>\<open>run\<close> method
  reach the Annotation Layer is the work of the language runtime, which visits the
  decorated parameters rightmost first. \<open>decorateRun\<close> attaches one option per
  parameter, \<open>decs ! i\<close> to the parameter at index \<open>i\<close>, in that order, and stops at
  the first error.\<close>

fun applyOptions ::
  "(nat \<times> string \<times> 'r OptionConfig) list \<Rightarrow> Target \<Rightarrow> 'r MetadataStore
     \<Rightarrow> ConfigError + 'r MetadataStore" where
  "applyOptions [] target store = Inr store"
| "applyOptions ((i, name, config) # ds) target store =
     (case option name config target (PString ''run'') i store of
        Inl e \<Rightarrow> Inl e
      | Inr store' \<Rightarrow> applyOptions ds target store')"

definition decorateRun ::
  "(string \<times> 'r OptionConfig) list \<Rightarrow> Target \<Rightarrow> 'r MetadataStore
     \<Rightarrow> ConfigError + 'r MetadataStore" where
  "decorateRun decs target store =
     applyOptions (rev (zip [0..<length decs] decs)) target store"

section \<open>The registry and the dispatch engine (mammot.ts)\<close>

text \<open>What a handler or the option resolution can throw: a \<^verbatim>\<open>MammotError\<close> with its
  message, or any other value.\<close>

datatype 'e Thrown = MammotError string | OtherError 'e

record 'v Interaction =
  isCommand :: bool
  commandName :: string
  optionBag :: "(string \<times> 'v) list"

text \<open>A command instance: the class it was constructed from and its \<^verbatim>\<open>run\<close>
  operation, which either completes or throws (a rejected promise, awaited by the
  caller, is a throw).\<close>

record ('e, 'v) Command =
  handlerClass :: nat
  run :: "'v Interaction \<Rightarrow> 'v list \<Rightarrow> 'e Thrown + unit"

record ('e, 'v) ConstructableCommand =
  cc_classId :: nat
  cc_run :: "'v Interaction \<Rightarrow> 'v list \<Rightarrow> 'e Thrown + unit"

text \<open>\<^verbatim>\<open>new Cmd(this)\<close>; the constructor of a command class is taken to complete.\<close>

definition construct :: "('e, 'v) ConstructableCommand \<Rightarrow> ('e, 'v) Command" where
  "construct Cmd = \<lparr>handlerClass = cc_classId Cmd, run = cc_run Cmd\<rparr>"

record ('r, 'e, 'v) ParsedCommand =
  pc_name :: string
  pc_description :: string
  pc_command :: "('e, 'v) Command"
  pc_options :: "'r OptionMetadata list"

text \<open>The state of a \<^verbatim>\<open>Mammot\<close> instance. \<open>commands\<close> is the \<^verbatim>\<open>Map\<close> of the
  source as an association list in insertion order: \<^verbatim>\<open>set\<close> is \<open>AList.update\<close>
  (an existing key keeps its position, a new key goes to the end), \<^verbatim>\<open>get\<close> is
  \<open>map_of\<close>, \<^verbatim>\<open>values()\<close> is \<open>map snd\<close>. Every entry holds its own options array.\<close>

record ('r, 'e, 'v) Mammot =
  commands :: "(string \<times> ('r, 'e, 'v) ParsedCommand) list"
  developmentGuildId :: string
  fallbackError :: "string option"
  isDev :: bool

text \<open>The private constructor, behind \<^verbatim>\<open>Mammot.client\<close>: an empty registry.\<close>

definition newMammot :: "string \<Rightarrow> string option \<Rightarrow> bool \<Rightarrow> ('r, 'e, 'v) Mammot" where
  "newMammot developmentGuild fallback dev =
     \<lparr>commands = [], developmentGuildId = developmentGuild,
      fallbackError = fallback, isDev = dev\<rparr>"

record 'r CommandInfo =
  rc_name :: string
  rc_description :: string
  rc_options :: "'r OptionMetadata list"

text \<open>Modelled from the spec: reflection.ts is not among the sources. \<^verbatim>\<open>readCommand\<close>
  reads the Metadata Store entry of the class of the instance: name and description
  from the class-level metadata, the options as they were collected. A class without
  class-level metadata has no name to read: \<open>Inl ()\<close>.\<close>

definition readCommand ::
  "'r MetadataStore \<Rightarrow> ('e, 'v) Command \<Rightarrow> unit + 'r CommandInfo" where
  "readCommand store command =
     (case store (handlerClass command) of
        None \<Rightarrow> Inl ()
      | Some e \<Rightarrow>
          (case entry_data e of
             None \<Rightarrow> Inl ()
           | Some d \<Rightarrow>
               Inr \<lparr>rc_name = cmd_name d, rc_description = cmd_description d,
                    rc_options = entry_options e\<rparr>))"

text \<open>The loop of \<^verbatim>\<open>addCommands\<close>, over the constructed instances. The reader
  stands for \<^verbatim>\<open>readCommand\<close>; when it throws, the error leaves \<^verbatim>\<open>addCommands\<close>
  and the registry keeps the entries set so far.\<close>

fun registerAll ::
  "(('e, 'v) Command \<Rightarrow> 'x + 'r CommandInfo) \<Rightarrow> ('e, 'v) Command list
     \<Rightarrow> ('r, 'e, 'v) Mammot \<Rightarrow> ('x \<times> ('r, 'e, 'v) Mammot) + ('r, 'e, 'v) Mammot" where
  "registerAll reader [] m = Inr m"
| "registerAll reader (command # rest) m =
     (case reader command of
        Inl err \<Rightarrow> Inl (err, m)
      | Inr info \<Rightarrow>
          registerAll reader rest
            (m\<lparr>commands :=
                 AList.update (rc_name info)
                   \<lparr>pc_name = rc_name info, pc_description = rc_description info,
                    pc_command = command, pc_options = rc_options info\<rparr>
                   (commands m)\<rparr>))"

definition addCommands ::
  "(('e, 'v) Command \<Rightarrow> 'x + 'r CommandInfo) \<Rightarrow> ('e, 'v) ConstructableCommand list
     \<Rightarrow> ('r, 'e, 'v) Mammot \<Rightarrow> ('x \<times> ('r, 'e, 'v) Mammot) + ('r, 'e, 'v) Mammot" where
  "addCommands reader cmds m = registerAll reader (map construct cmds) m"

subsection \<open>login: the schema sent to the remote service\<close>

text \<open>\<^verbatim>\<open>{...option.config, name: option.name}\<close>: the fields of the config, with the
  name of the option over any name the config had.\<close>

record 'r ApplicationCommandOptionData =
  aco_type :: "OptionType option"
  aco_force :: "bool option"
  aco_rest :: 'r
  aco_name :: string

definition flatten :: "'r OptionMetadata \<Rightarrow> 'r ApplicationCommandOptionData" where
  "flatten opt =
     \<lparr>aco_type = cfg_type (opt_config opt), aco_force = cfg_force (opt_config opt),
      aco_rest = cfg_rest (opt_config opt), aco_name = opt_name opt\<rparr>"

record 'r ApplicationCommandData =
  acd_options :: "'r ApplicationCommandOptionData list"
  acd_name :: string
  acd_description :: string

datatype SyncScope = GuildScope string | GlobalScope

record 'r SchemaSync =
  sync_commands :: "'r ApplicationCommandData list"
  sync_scope :: SyncScope

text \<open>\<^verbatim>\<open>login\<close> computes \<open>mapped\<close> from the values of the registry;
  \<^verbatim>\<open>command.options.reverse()\<close> reverses the array of the entry where it is and
  returns it. The result is the request that the \<^verbatim>\<open>ready\<close> listener submits, and
  the instance with its arrays as the reversal left them.\<close>

definition reverseOptions :: "('r, 'e, 'v) ParsedCommand \<Rightarrow> ('r, 'e, 'v) ParsedCommand" where
  "reverseOptions command = command\<lparr>pc_options := rev (pc_options command)\<rparr>"

definition mappedCommand :: "('r, 'e, 'v) ParsedCommand \<Rightarrow> 'r ApplicationCommandData" where
  "mappedCommand command =
     \<lparr>acd_options = map flatten (pc_options (reverseOptions command)),
      acd_name = pc_name command, acd_description = pc_description command\<rparr>"

definition login :: "('r, 'e, 'v) Mammot \<Rightarrow> 'r SchemaSync \<times> ('r, 'e, 'v) Mammot" where
  "login m =
     (\<lparr>sync_commands = map mappedCommand (map snd (commands m)),
       sync_scope = (if isDev m then GuildScope (developmentGuildId m) else GlobalScope)\<rparr>,
      m\<lparr>commands := map (\<lambda>(name, command). (name, reverseOptions command)) (commands m)\<rparr>)"

subsection \<open>The interactionCreate listener\<close>

datatype ('e, 'v) Effect =
  Run nat "'v list"
  | Warn "'e Thrown"
  | Reply bool string

text \<open>The body of the \<^verbatim>\<open>try\<close> block: the arguments are resolved first
  (\<^verbatim>\<open>Command.resolveMetadata\<close> of command.ts, a parameter here), then the handler
  runs. \<open>Run c args\<close> records the call of the handler of class \<open>c\<close>.\<close>

definition tryRun ::
  "('v Interaction \<Rightarrow> 'r OptionMetadata list \<Rightarrow> 'e Thrown + 'v list)
     \<Rightarrow> ('r, 'e, 'v) ParsedCommand \<Rightarrow> 'v Interaction
     \<Rightarrow> ('e, 'v) Effect list \<times> ('e Thrown + unit)" where
  "tryRun resolveMetadata found interaction =
     (case resolveMetadata interaction (pc_options found) of
        Inl error \<Rightarrow> ([], Inl error)
      | Inr args \<Rightarrow>
          ([Run (handlerClass (pc_command found)) args],
           run (pc_command found) interaction args))"

text \<open>The \<^verbatim>\<open>catch\<close> block. \<^verbatim>\<open>this.fallbackError\<close> is tested for truthiness: an
  absent fallback and the empty string both fail the test. \<open>Warn\<close> is
  \<^verbatim>\<open>console.warn\<close>, \<open>Reply ephemeral content\<close> is \<^verbatim>\<open>interaction.reply\<close>.\<close>

definition catchError :: "('r, 'e, 'v) Mammot \<Rightarrow> 'e Thrown \<Rightarrow> ('e, 'v) Effect list" where
  "catchError m error =
     (let message =
        (case error of
           MammotError msg \<Rightarrow> msg
         | OtherError x \<Rightarrow>
             (case fallbackError m of
                Some fallback \<Rightarrow> if fallback \<noteq> [] then fallback else ''Something went wrong.''
              | None \<Rightarrow> ''Something went wrong.''))
      in (case error of MammotError msg \<Rightarrow> [] | OtherError x \<Rightarrow> [Warn error])
           @ [Reply True message])"

text \<open>The listener: its effects in order, and how it ends (\<open>Inr ()\<close>: it returns;
  \<open>Inl e\<close>: \<open>e\<close> leaves the listener).\<close>

definition interactionCreate ::
  "('v Interaction \<Rightarrow> 'r OptionMetadata list \<Rightarrow> 'e Thrown + 'v list)
     \<Rightarrow> ('r, 'e, 'v) Mammot \<Rightarrow> 'v Interaction
     \<Rightarrow> ('e, 'v) Effect list \<times> ('e Thrown + unit)" where
  "interactionCreate resolveMetadata m interaction =
     (if \<not> isCommand interaction then ([], Inr ())
      else
        (case map_of (commands m) (commandName interaction) of
           None \<Rightarrow> ([], Inr ())
         | Some found \<Rightarrow>
             (case tryRun resolveMetadata found interaction of
                (trace, Inr u) \<Rightarrow> (trace, Inr ())
              | (trace, Inl error) \<Rightarrow> (trace @ catchError m error, Inr ()))))"

section \<open>Concrete inputs\<close>

text \<open>A command class with the given declared parameter types, a config with the
  given \<^verbatim>\<open>type\<close> and \<^verbatim>\<open>force\<close>, handlers that throw, and an instance with one
  registered command, \<^verbatim>\<open>ping\<close>.\<close>

definition exampleTarget :: "ParamType list \<Rightarrow> Target" where
  "exampleTarget types =
     \<lparr>classId = 0, constructorName = ''Example'', extendsCommand = True, paramTypes = types\<rparr>"

definition exampleConfig :: "OptionType option \<Rightarrow> bool option \<Rightarrow> unit OptionConfig" where
  "exampleConfig t f = \<lparr>cfg_type = t, cfg_force = f, cfg_name = None, cfg_rest = ()\<rparr>"

definition noArguments :: "string Interaction \<Rightarrow> unit OptionMetadata list \<Rightarrow> string Thrown + string list" where
  "noArguments interaction options = Inr []"

definition throwsDomainError :: "string Interaction \<Rightarrow> string list \<Rightarrow> string Thrown + unit" where
  "throwsDomainError interaction args = Inl (MammotError ''Not enough permissions'')"

definition throwsRawError :: "string Interaction \<Rightarrow> string list \<Rightarrow> string Thrown + unit" where
  "throwsRawError interaction args = Inl (OtherError ''ECONNRESET'')"

definition exampleParsed ::
  "(string Interaction \<Rightarrow> string list \<Rightarrow> string Thrown + unit) \<Rightarrow> (unit, string, string) ParsedCommand" where
  "exampleParsed handler =
     \<lparr>pc_name = ''ping'', pc_description = ''pong'',
      pc_command = \<lparr>handlerClass = 0, run = handler\<rparr>, pc_options = []\<rparr>"

definition exampleMammot ::
  "(string Interaction \<Rightarrow> string list \<Rightarrow> string Thrown + unit) \<Rightarrow> string option
     \<Rightarrow> (unit, string, string) Mammot" where
  "exampleMammot handler fallback =
     \<lparr>commands = [(''ping'', exampleParsed handler)], developmentGuildId = ''1'',
      fallbackError = fallback, isDev = True\<rparr>"

definition exampleInteraction :: "string \<Rightarrow> string Interaction" where
  "exampleInteraction name = \<lparr>isCommand = True, commandName = name, optionBag = []\<rparr>"

text \<open>A resolution that yields the names of the options in the order it receives
  them, a handler that completes, and an instance whose registry holds the command
  \<^verbatim>\<open>ban\<close> with its two options in the order they were collected. \<open>pingStore\<close>
  holds two classes that both carry the name \<^verbatim>\<open>ping\<close>.\<close>

definition optionNames :: "string Interaction \<Rightarrow> unit OptionMetadata list \<Rightarrow> string Thrown + string list" where
  "optionNames interaction options = Inr (map opt_name options)"

definition completes :: "string Interaction \<Rightarrow> string list \<Rightarrow> string Thrown + unit" where
  "completes interaction args = Inr ()"

definition collectedOptions :: "unit OptionMetadata list" where
  "collectedOptions =
     [\<lparr>opt_name = ''reason'', opt_index = 1, opt_config = exampleConfig (Some STRING) None\<rparr>,
      \<lparr>opt_name = ''who'', opt_index = 0, opt_config = exampleConfig (Some USER) None\<rparr>]"

definition banCommand :: "(unit, string, string) ParsedCommand" where
  "banCommand =
     \<lparr>pc_name = ''ban'', pc_description = ''Ban a member'',
      pc_command = \<lparr>handlerClass = 0, run = completes\<rparr>, pc_options = collectedOptions\<rparr>"

definition banMammot :: "(unit, string, string) Mammot" where
  "banMammot =
     \<lparr>commands = [(''ban'', banCommand)], developmentGuildId = ''1'',
      fallbackError = None, isDev = True\<rparr>"

definition exampleClass :: "nat \<Rightarrow> (string, string) ConstructableCommand" where
  "exampleClass c = \<lparr>cc_classId = c, cc_run = completes\<rparr>"

definition pingStore :: "unit MetadataStore" where
  "pingStore =
     [0 \<mapsto> \<lparr>entry_options = [],
             entry_data = Some \<lparr>cmd_name = ''ping'', cmd_description = ''first'',
                                cmd_defaultPermission = None\<rparr>\<rparr>,
      1 \<mapsto> \<lparr>entry_options = [],
             entry_data = Some \<lparr>cmd_name = ''ping'', cmd_description = ''second'',
                                cmd_defaultPermission = None\<rparr>\<rparr>]"

section \<open>The Annotation Layer: option attachment\<close>

lemma option_valid_target:
  "extendsCommand target \<Longrightarrow>
   option name config target (PString ''run'') index store =
     (case chooseType (getParamType target index) config of
        Inl e \<Rightarrow> Inl e
      | Inr chosenType \<Rightarrow>
          if (\<exists>t. cfg_type config = Some t \<and> chosenType \<noteq> t) \<and> cfg_force config \<noteq> Some True
          then Inl (TypeMismatch (the (cfg_type config)) chosenType)
          else Inr (addOption store target
                 \<lparr>opt_name = name, opt_index = index,
                  opt_config = config\<lparr>cfg_type := Some chosenType\<rparr>\<rparr>))"
  by (auto simp: option_def split: sum.splits option.splits)

lemma addOption_last:
  "\<exists>e. addOption store target meta (classId target) = Some e
       \<and> entry_options e \<noteq> [] \<and> last (entry_options e) = meta"
  by (simp add: addOption_def split: option.splits)

lemma chooseType_Number:
  "chooseType Number config =
     (case cfg_type config of
        None \<Rightarrow> Inl NumberTypeMissing
      | Some t \<Rightarrow> if t = NUMBER \<or> t = INTEGER then Inr t else Inl (NumberTypeInvalid t))"
  by (simp add: chooseType_def isNumOrInt_def split: option.splits)

lemma chooseType_force [simp]:
  "chooseType type (config\<lparr>cfg_force := f\<rparr>) = chooseType type config"
  by (simp add: chooseType_def)

lemma chooseType_table:
  "chooseType String config = Inr STRING"
  "chooseType Boolean config = Inr BOOLEAN"
  "chooseType Role config = Inr ROLE"
  "chooseType User config = Inr USER"
  "chooseType GuildMember config = Inr USER"
  "chooseType GuildChannel config = Inr CHANNEL"
  "chooseType (OtherClass c) config = Inr CHANNEL"
  "chooseType Function config = Inr CHANNEL"
  "chooseType Undefined config = Inl UnsupportedDataType"
  by (simp_all add: chooseType_def GuildChannel_constructor_def)

lemma chooseType_unsupported_iff:
  "chooseType type config = Inl UnsupportedDataType \<longleftrightarrow> type = Undefined"
  by (cases type) (auto simp: chooseType_def GuildChannel_constructor_def split: option.splits)

text \<open>Claim C1. An option is attached to a parameter of \<^verbatim>\<open>run\<close> of a command
  class, the inference yields the kind \<open>K\<close>, and the config names another kind
  \<open>L\<close>. Without force the attachment fails with the type-mismatch error for \<open>L\<close>
  and \<open>K\<close>. With force it succeeds, and the descriptor appended to the entry of the
  class in the Metadata Store carries \<open>K\<close>, not \<open>L\<close>.\<close>

theorem option_mismatch_check:
  assumes "property = PString ''run''" and "extendsCommand target"
    and "chooseType (getParamType target index) config = Inr K"
    and "cfg_type config = Some L" and "L \<noteq> K"
  shows "(cfg_force config \<noteq> Some True \<longrightarrow>
            option name config target property index store = Inl (TypeMismatch L K))
       \<and> (cfg_force config = Some True \<longrightarrow>
            (\<exists>store' e. option name config target property index store = Inr store'
               \<and> store' (classId target) = Some e \<and> entry_options e \<noteq> []
               \<and> last (entry_options e) =
                   \<lparr>opt_name = name, opt_index = index,
                    opt_config = config\<lparr>cfg_type := Some K\<rparr>\<rparr>
               \<and> cfg_type (opt_config (last (entry_options e))) \<noteq> Some L))"
proof (intro conjI impI)
  assume "cfg_force config \<noteq> Some True"
  with assms show "option name config target property index store = Inl (TypeMismatch L K)"
    by (simp add: option_valid_target)
next
  let ?meta = "\<lparr>opt_name = name, opt_index = index,
                 opt_config = config\<lparr>cfg_type := Some K\<rparr>\<rparr>"
  assume "cfg_force config = Some True"
  with assms have run: "option name config target property index store
      = Inr (addOption store target ?meta)"
    by (simp add: option_valid_target)
  obtain e where e: "addOption store target ?meta (classId target) = Some e"
      "entry_options e \<noteq> []" "last (entry_options e) = ?meta"
    using addOption_last by blast
  from assms(5) e(3) have "cfg_type (opt_config (last (entry_options e))) \<noteq> Some L"
    by simp
  with run e show "\<exists>store' e. option name config target property index store = Inr store'
               \<and> store' (classId target) = Some e \<and> entry_options e \<noteq> []
               \<and> last (entry_options e) = ?meta
               \<and> cfg_type (opt_config (last (entry_options e))) \<noteq> Some L"
    by blast
qed

theorem option_mismatch_check_witness:
  "extendsCommand (exampleTarget [GuildMember])
   \<and> chooseType (getParamType (exampleTarget [GuildMember]) 0) (exampleConfig (Some MENTIONABLE) None)
       = Inr USER
   \<and> option ''who'' (exampleConfig (Some MENTIONABLE) None) (exampleTarget [GuildMember])
       (PString ''run'') 0 Map.empty = Inl (TypeMismatch MENTIONABLE USER)
   \<and> (\<exists>store' e.
        option ''who'' (exampleConfig (Some MENTIONABLE) (Some True)) (exampleTarget [GuildMember])
          (PString ''run'') 0 Map.empty = Inr store'
        \<and> store' 0 = Some e
        \<and> cfg_type (opt_config (last (entry_options e))) = Some USER)"
proof -
  let ?t = "exampleTarget [GuildMember]"
  let ?c = "exampleConfig (Some MENTIONABLE) None"
  let ?f = "exampleConfig (Some MENTIONABLE) (Some True)"
  have t: "extendsCommand ?t" "classId ?t = 0"
    by (simp_all add: exampleTarget_def)
  have c: "chooseType (getParamType ?t 0) ?c = Inr USER"
    by (simp add: chooseType_def getParamType_def exampleTarget_def)
  have f: "chooseType (getParamType ?t 0) ?f = Inr USER"
    by (simp add: chooseType_def getParamType_def exampleTarget_def)
  have 1: "option ''who'' ?c ?t (PString ''run'') 0 Map.empty = Inl (TypeMismatch MENTIONABLE USER)"
    using option_mismatch_check [OF refl t(1) c, of MENTIONABLE "''who''" Map.empty]
    by (simp add: exampleConfig_def)
  have 2: "\<exists>store' e. option ''who'' ?f ?t (PString ''run'') 0 Map.empty = Inr store'
        \<and> store' 0 = Some e \<and> cfg_type (opt_config (last (entry_options e))) = Some USER"
    using option_mismatch_check [OF refl t(1) f, of MENTIONABLE "''who''" Map.empty] t(2)
    by (auto simp add: exampleConfig_def)
  from t c 1 2 show ?thesis by simp
qed

text \<open>Claim C3, at a declared type outside the guild-channel family. The source
  introduces the last case of the inference as the catch-all for the types of guild
  channel and tests \<^verbatim>\<open>type instanceof GuildChannel.constructor\<close>, which is
  \<^verbatim>\<open>type instanceof Function\<close>. A parameter declared as \<^verbatim>\<open>Date\<close> is therefore
  recorded as a CHANNEL option, where the claim has the unsupported-data-type
  error.\<close>

theorem option_other_class_becomes_channel:
  "chooseType (OtherClass ''Date'') (exampleConfig None None) = Inr CHANNEL
   \<and> option ''when'' (exampleConfig None None) (exampleTarget [OtherClass ''Date''])
       (PString ''run'') 0 Map.empty
     = Inr (Map.empty(0 \<mapsto>
         \<lparr>entry_options =
            [\<lparr>opt_name = ''when'', opt_index = 0,
              opt_config = exampleConfig (Some CHANNEL) None\<rparr>],
          entry_data = None\<rparr>))"
  by (simp add: option_def chooseType_def getParamType_def addOption_def exampleTarget_def
      exampleConfig_def GuildChannel_constructor_def)

text \<open>Claim C4. An option is attached to a parameter of \<^verbatim>\<open>run\<close> of a command
  class whose declared type is numeric. Without \<^verbatim>\<open>config.type\<close> the attachment
  fails with the missing-subtype error; with a \<^verbatim>\<open>config.type\<close> other than NUMBER and
  INTEGER it fails with the error whose message ends with that value; with NUMBER or
  INTEGER it succeeds and the recorded descriptor carries exactly that kind.\<close>

theorem option_number_subtype:
  assumes "property = PString ''run''" and "extendsCommand target"
    and "getParamType target index = Number"
  shows "(cfg_type config = None \<longrightarrow>
            option name config target property index store = Inl NumberTypeMissing)
       \<and> (\<forall>t. cfg_type config = Some t \<and> t \<noteq> NUMBER \<and> t \<noteq> INTEGER \<longrightarrow>
            option name config target property index store = Inl (NumberTypeInvalid t)
            \<and> errorMessage (NumberTypeInvalid t) =
                ''Number type must be either NUMBER or INTEGER. Received '' @ typeName t)
       \<and> (\<forall>t. cfg_type config = Some t \<and> (t = NUMBER \<or> t = INTEGER) \<longrightarrow>
            (\<exists>store' e. option name config target property index store = Inr store'
               \<and> store' (classId target) = Some e \<and> entry_options e \<noteq> []
               \<and> last (entry_options e) =
                   \<lparr>opt_name = name, opt_index = index, opt_config = config\<rparr>
               \<and> cfg_type (opt_config (last (entry_options e))) = Some t))"
proof (intro conjI allI impI)
  assume "cfg_type config = None"
  with assms show "option name config target property index store = Inl NumberTypeMissing"
    by (simp add: option_valid_target chooseType_Number)
next
  fix t assume "cfg_type config = Some t \<and> t \<noteq> NUMBER \<and> t \<noteq> INTEGER"
  with assms show "option name config target property index store = Inl (NumberTypeInvalid t)"
    by (simp add: option_valid_target chooseType_Number)
next
  fix t
  show "errorMessage (NumberTypeInvalid t) =
          ''Number type must be either NUMBER or INTEGER. Received '' @ typeName t"
    by simp
next
  fix t assume t: "cfg_type config = Some t \<and> (t = NUMBER \<or> t = INTEGER)"
  then have same: "config\<lparr>cfg_type := Some t\<rparr> = config" by simp
  let ?meta = "\<lparr>opt_name = name, opt_index = index, opt_config = config\<rparr>"
  from assms t have run: "option name config target property index store
      = Inr (addOption store target ?meta)"
    by (auto simp: option_valid_target chooseType_Number same)
  obtain e where e: "addOption store target ?meta (classId target) = Some e"
      "entry_options e \<noteq> []" "last (entry_options e) = ?meta"
    using addOption_last by blast
  from t e(3) have "cfg_type (opt_config (last (entry_options e))) = Some t" by simp
  with run e show "\<exists>store' e. option name config target property index store = Inr store'
               \<and> store' (classId target) = Some e \<and> entry_options e \<noteq> []
               \<and> last (entry_options e) = ?meta
               \<and> cfg_type (opt_config (last (entry_options e))) = Some t"
    by blast
qed

theorem option_number_subtype_witness:
  "extendsCommand (exampleTarget [Number])
   \<and> getParamType (exampleTarget [Number]) 0 = Number
   \<and> option ''amount'' (exampleConfig None None) (exampleTarget [Number]) (PString ''run'') 0 Map.empty
       = Inl NumberTypeMissing
   \<and> option ''amount'' (exampleConfig (Some STRING) None) (exampleTarget [Number]) (PString ''run'') 0 Map.empty
       = Inl (NumberTypeInvalid STRING)
   \<and> errorMessage (NumberTypeInvalid STRING) = ''Number type must be either NUMBER or INTEGER. Received STRING''
   \<and> (\<exists>store' e. option ''amount'' (exampleConfig (Some INTEGER) None) (exampleTarget [Number]) (PString ''run'') 0 Map.empty
       = Inr store' \<and> store' 0 = Some e \<and> cfg_type (opt_config (last (entry_options e))) = Some INTEGER)"
proof -
  have t: "extendsCommand (exampleTarget [Number])" "getParamType (exampleTarget [Number]) 0 = Number"
    "classId (exampleTarget [Number]) = 0"
    by (simp_all add: exampleTarget_def getParamType_def)
  note inst = option_number_subtype [OF refl t(1) t(2), of _ "''amount''" Map.empty]
  have 1: "option ''amount'' (exampleConfig None None) (exampleTarget [Number]) (PString ''run'') 0 Map.empty
       = Inl NumberTypeMissing"
    using inst [of "exampleConfig None None"] by (simp add: exampleConfig_def)
  have 2: "option ''amount'' (exampleConfig (Some STRING) None) (exampleTarget [Number]) (PString ''run'') 0 Map.empty
       = Inl (NumberTypeInvalid STRING)"
    using inst [of "exampleConfig (Some STRING) None"] by (simp add: exampleConfig_def)
  have 3: "\<exists>store' e. option ''amount'' (exampleConfig (Some INTEGER) None) (exampleTarget [Number]) (PString ''run'') 0 Map.empty
       = Inr store' \<and> store' 0 = Some e \<and> cfg_type (opt_config (last (entry_options e))) = Some INTEGER"
    using inst [of "exampleConfig (Some INTEGER) None"] t(3) by (auto simp add: exampleConfig_def)
  from t 1 2 3 show ?thesis by simp
qed

text \<open>Claim C10. Force does not bypass the validation of a numeric parameter: with
  force set, through \<^verbatim>\<open>option\<close> or through \<^verbatim>\<open>forced\<close> (which is \<^verbatim>\<open>option\<close> with
  force set), a missing \<^verbatim>\<open>config.type\<close> and a \<^verbatim>\<open>config.type\<close> other than NUMBER and
  INTEGER fail as they do without force. On every attachment, the errors with force
  set are the errors of the same attachment without it, the type mismatch apart.\<close>

theorem force_keeps_number_validation:
  "(property = PString ''run'' \<and> extendsCommand target \<and> getParamType target index = Number \<longrightarrow>
      (cfg_type config = None \<longrightarrow>
         option name (config\<lparr>cfg_force := Some True\<rparr>) target property index store
           = Inl NumberTypeMissing
         \<and> forced name config target property index store = Inl NumberTypeMissing)
      \<and> (\<forall>t. cfg_type config = Some t \<and> t \<noteq> NUMBER \<and> t \<noteq> INTEGER \<longrightarrow>
           option name (config\<lparr>cfg_force := Some True\<rparr>) target property index store
             = Inl (NumberTypeInvalid t)
           \<and> forced name config target property index store = Inl (NumberTypeInvalid t)))
   \<and> forced name config = option name (config\<lparr>cfg_force := Some True\<rparr>)
   \<and> (\<forall>e. option name (config\<lparr>cfg_force := Some True\<rparr>) target property index store = Inl e
         \<longleftrightarrow> option name config target property index store = Inl e
             \<and> (\<forall>found inferred. e \<noteq> TypeMismatch found inferred))"
proof (intro conjI allI impI)
  show "forced name config = option name (config\<lparr>cfg_force := Some True\<rparr>)"
    by (simp add: forced_def)
next
  fix e
  show "option name (config\<lparr>cfg_force := Some True\<rparr>) target property index store = Inl e
         \<longleftrightarrow> option name config target property index store = Inl e
             \<and> (\<forall>found inferred. e \<noteq> TypeMismatch found inferred)"
    by (auto simp: option_def chooseType_def isNumOrInt_def split: sum.splits option.splits if_splits)
next
  assume a: "property = PString ''run'' \<and> extendsCommand target \<and> getParamType target index = Number"
    and n: "cfg_type config = None"
  then show "option name (config\<lparr>cfg_force := Some True\<rparr>) target property index store
           = Inl NumberTypeMissing"
    by (simp add: option_valid_target chooseType_Number)
  then show "forced name config target property index store = Inl NumberTypeMissing"
    by (simp add: forced_def)
next
  fix t
  assume a: "property = PString ''run'' \<and> extendsCommand target \<and> getParamType target index = Number"
    and n: "cfg_type config = Some t \<and> t \<noteq> NUMBER \<and> t \<noteq> INTEGER"
  then show "option name (config\<lparr>cfg_force := Some True\<rparr>) target property index store
           = Inl (NumberTypeInvalid t)"
    by (simp add: option_valid_target chooseType_Number)
  then show "forced name config target property index store = Inl (NumberTypeInvalid t)"
    by (simp add: forced_def)
qed

theorem force_keeps_number_validation_witness:
  "extendsCommand (exampleTarget [Number])
   \<and> getParamType (exampleTarget [Number]) 0 = Number
   \<and> forced ''amount'' (exampleConfig None None) (exampleTarget [Number]) (PString ''run'') 0 Map.empty
       = Inl NumberTypeMissing
   \<and> forced ''amount'' (exampleConfig (Some STRING) None) (exampleTarget [Number]) (PString ''run'') 0 Map.empty
       = Inl (NumberTypeInvalid STRING)
   \<and> option ''amount'' (exampleConfig (Some STRING) (Some True)) (exampleTarget [Number]) (PString ''run'') 0 Map.empty
       = Inl (NumberTypeInvalid STRING)"
proof -
  have t: "extendsCommand (exampleTarget [Number])" "getParamType (exampleTarget [Number]) 0 = Number"
    by (simp_all add: exampleTarget_def getParamType_def)
  note inst = force_keeps_number_validation
    [of "PString ''run''" "exampleTarget [Number]" 0 _ "''amount''" Map.empty]
  have 1: "forced ''amount'' (exampleConfig None None) (exampleTarget [Number]) (PString ''run'') 0 Map.empty
       = Inl NumberTypeMissing"
    using inst [of "exampleConfig None None"] t by (simp add: exampleConfig_def)
  have 2: "forced ''amount'' (exampleConfig (Some STRING) None) (exampleTarget [Number]) (PString ''run'') 0 Map.empty
       = Inl (NumberTypeInvalid STRING)"
     and 3: "option ''amount'' (exampleConfig (Some STRING) (Some True)) (exampleTarget [Number]) (PString ''run'') 0 Map.empty
       = Inl (NumberTypeInvalid STRING)"
    using inst [of "exampleConfig (Some STRING) None"] t by (simp_all add: exampleConfig_def)
  from t 1 2 3 show ?thesis by simp
qed

section \<open>The Dispatch Engine\<close>

text \<open>Claim C5. A command invocation reaches a registered command, its arguments
  resolve, and the handler throws a \<^verbatim>\<open>MammotError\<close>. The listener calls the handler,
  sends one reply, ephemeral, whose content is the message of the error, writes
  nothing to the console, and returns.\<close>

theorem domain_error_reply:
  assumes "isCommand interaction"
    and "map_of (commands m) (commandName interaction) = Some found"
    and "resolveMetadata interaction (pc_options found) = Inr args"
    and "run (pc_command found) interaction args = Inl (MammotError msg)"
  shows "interactionCreate resolveMetadata m interaction =
           ([Run (handlerClass (pc_command found)) args, Reply True msg], Inr ())"
  using assms by (simp add: interactionCreate_def tryRun_def catchError_def)

theorem domain_error_reply_witness:
  "isCommand (exampleInteraction ''ping'')
   \<and> map_of (commands (exampleMammot throwsDomainError None)) (commandName (exampleInteraction ''ping''))
       = Some (exampleParsed throwsDomainError)
   \<and> noArguments (exampleInteraction ''ping'') (pc_options (exampleParsed throwsDomainError)) = Inr []
   \<and> run (pc_command (exampleParsed throwsDomainError)) (exampleInteraction ''ping'') []
       = Inl (MammotError ''Not enough permissions'')
   \<and> interactionCreate noArguments (exampleMammot throwsDomainError None) (exampleInteraction ''ping'')
       = ([Run 0 [], Reply True ''Not enough permissions''], Inr ())"
proof -
  have h: "isCommand (exampleInteraction ''ping'')"
    "map_of (commands (exampleMammot throwsDomainError None)) (commandName (exampleInteraction ''ping''))
       = Some (exampleParsed throwsDomainError)"
    "noArguments (exampleInteraction ''ping'') (pc_options (exampleParsed throwsDomainError)) = Inr []"
    "run (pc_command (exampleParsed throwsDomainError)) (exampleInteraction ''ping'') []
       = Inl (MammotError ''Not enough permissions'')"
    by (simp_all add: exampleInteraction_def exampleMammot_def exampleParsed_def noArguments_def
        throwsDomainError_def)
  from domain_error_reply [where resolveMetadata = noArguments, OF h] h show ?thesis
    by (simp add: exampleParsed_def)
qed

text \<open>Claim C6, amended. A command invocation reaches a registered command, its
  arguments resolve, and the handler throws a value that is not a \<^verbatim>\<open>MammotError\<close>.
  The listener writes the thrown value to the console and sends one ephemeral reply:
  the configured fallback when it is a non-empty string, the constant
  \<^verbatim>\<open>Something went wrong.\<close> when no fallback is configured or the fallback is the
  empty string.\<close>

theorem unexpected_error_reply:
  assumes "isCommand interaction"
    and "map_of (commands m) (commandName interaction) = Some found"
    and "resolveMetadata interaction (pc_options found) = Inr args"
    and "run (pc_command found) interaction args = Inl (OtherError x)"
  shows "(\<forall>fallback. fallbackError m = Some fallback \<and> fallback \<noteq> [] \<longrightarrow>
            interactionCreate resolveMetadata m interaction =
              ([Run (handlerClass (pc_command found)) args, Warn (OtherError x),
                Reply True fallback], Inr ()))
       \<and> (fallbackError m = None \<or> fallbackError m = Some [] \<longrightarrow>
            interactionCreate resolveMetadata m interaction =
              ([Run (handlerClass (pc_command found)) args, Warn (OtherError x),
                Reply True ''Something went wrong.''], Inr ()))"
  using assms by (auto simp add: interactionCreate_def tryRun_def catchError_def)

theorem unexpected_error_reply_witness:
  "isCommand (exampleInteraction ''ping'')
   \<and> map_of (commands (exampleMammot throwsRawError (Some ''Oops!''))) (commandName (exampleInteraction ''ping''))
       = Some (exampleParsed throwsRawError)
   \<and> noArguments (exampleInteraction ''ping'') (pc_options (exampleParsed throwsRawError)) = Inr []
   \<and> run (pc_command (exampleParsed throwsRawError)) (exampleInteraction ''ping'') []
       = Inl (OtherError ''ECONNRESET'')
   \<and> interactionCreate noArguments (exampleMammot throwsRawError (Some ''Oops!'')) (exampleInteraction ''ping'')
       = ([Run 0 [], Warn (OtherError ''ECONNRESET''), Reply True ''Oops!''], Inr ())
   \<and> interactionCreate noArguments (exampleMammot throwsRawError None) (exampleInteraction ''ping'')
       = ([Run 0 [], Warn (OtherError ''ECONNRESET''), Reply True ''Something went wrong.''], Inr ())"
proof -
  have i: "isCommand (exampleInteraction ''ping'')"
    and r: "noArguments (exampleInteraction ''ping'') (pc_options (exampleParsed throwsRawError)) = Inr []"
    and t: "run (pc_command (exampleParsed throwsRawError)) (exampleInteraction ''ping'') []
       = Inl (OtherError ''ECONNRESET'')"
    by (simp_all add: exampleInteraction_def exampleParsed_def noArguments_def throwsRawError_def)
  have f: "map_of (commands (exampleMammot throwsRawError fb)) (commandName (exampleInteraction ''ping''))
       = Some (exampleParsed throwsRawError)" for fb
    by (simp add: exampleInteraction_def exampleMammot_def)
  have fb: "fallbackError (exampleMammot throwsRawError fb) = fb" for fb
    by (simp add: exampleMammot_def)
  have 1: "interactionCreate noArguments (exampleMammot throwsRawError (Some ''Oops!'')) (exampleInteraction ''ping'')
       = ([Run 0 [], Warn (OtherError ''ECONNRESET''), Reply True ''Oops!''], Inr ())"
    using unexpected_error_reply [where resolveMetadata = noArguments, OF i f [of "Some ''Oops!''"] r t]
    by (simp add: fb exampleParsed_def)
  have 2: "interactionCreate noArguments (exampleMammot throwsRawError None) (exampleInteraction ''ping'')
       = ([Run 0 [], Warn (OtherError ''ECONNRESET''), Reply True ''Something went wrong.''], Inr ())"
    using unexpected_error_reply [where resolveMetadata = noArguments, OF i f [of None] r t]
    by (simp add: fb exampleParsed_def)
  from i f [of "Some ''Oops!''"] r t 1 2 show ?thesis by simp
qed

text \<open>Claim C6 as stated fails where the empty string is configured as the fallback:
  the reply is the constant message, not the configured one.\<close>

theorem empty_fallback_counterexample:
  "fallbackError (exampleMammot throwsRawError (Some '''')) = Some ''''
   \<and> interactionCreate noArguments (exampleMammot throwsRawError (Some '''')) (exampleInteraction ''ping'')
       = ([Run 0 [], Warn (OtherError ''ECONNRESET''), Reply True ''Something went wrong.''], Inr ())
   \<and> interactionCreate noArguments (exampleMammot throwsRawError (Some '''')) (exampleInteraction ''ping'')
       \<noteq> ([Run 0 [], Warn (OtherError ''ECONNRESET''), Reply True ''''], Inr ())"
  by (simp add: interactionCreate_def tryRun_def catchError_def exampleMammot_def
      exampleInteraction_def exampleParsed_def noArguments_def throwsRawError_def)

text \<open>Claim C7. An invocation whose \<^verbatim>\<open>commandName\<close> is not a key of the registry
  has no effect: no handler is called, nothing is replied or logged, and the listener
  returns.\<close>

theorem unknown_command_noop:
  assumes "commandName interaction \<notin> fst ` set (commands m)"
  shows "interactionCreate resolveMetadata m interaction = ([], Inr ())"
proof -
  from assms have "map_of (commands m) (commandName interaction) = None"
    by (simp add: map_of_eq_None_iff)
  then show ?thesis by (simp add: interactionCreate_def)
qed

theorem unknown_command_noop_witness:
  "commandName (exampleInteraction ''pong'') \<notin> fst ` set (commands (exampleMammot throwsDomainError None))
   \<and> interactionCreate noArguments (exampleMammot throwsDomainError None) (exampleInteraction ''pong'')
       = ([], Inr ())"
proof -
  have h: "commandName (exampleInteraction ''pong'') \<notin> fst ` set (commands (exampleMammot throwsDomainError None))"
    by (simp add: exampleInteraction_def exampleMammot_def)
  from unknown_command_noop [OF h] h show ?thesis by simp
qed

section \<open>The Command Registry\<close>

lemma registerAll_append:
  "registerAll reader (xs @ ys) m =
     (case registerAll reader xs m of Inl e \<Rightarrow> Inl e | Inr m1 \<Rightarrow> registerAll reader ys m1)"
  by (induction xs arbitrary: m) (auto split: sum.splits)

lemma registerAll_succeeds:
  "\<forall>c \<in> set cs. \<exists>info. reader c = Inr info \<Longrightarrow> \<exists>m'. registerAll reader cs m = Inr m'"
  by (induction cs arbitrary: m) (auto split: sum.splits)

lemma registerAll_distinct:
  "registerAll reader cs m = Inr m' \<Longrightarrow> distinct (map fst (commands m))
     \<Longrightarrow> distinct (map fst (commands m'))"
proof (induction cs arbitrary: m)
  case Nil
  then show ?case by simp
next
  case (Cons c cs)
  then show ?case
    by (auto split: sum.splits simp: distinct_update)
qed

lemma registerAll_other_names:
  "registerAll reader cs m = Inr m'
     \<Longrightarrow> \<forall>c \<in> set cs. \<forall>info. reader c = Inr info \<longrightarrow> rc_name info \<noteq> n
     \<Longrightarrow> map_of (commands m') n = map_of (commands m) n"
proof (induction cs arbitrary: m)
  case Nil
  then show ?case by simp
next
  case (Cons c cs)
  then show ?case
    by (auto split: sum.splits simp: update_conv')
qed

lemma one_entry_per_key:
  "distinct (map fst al) \<Longrightarrow> map_of al k = Some v
     \<Longrightarrow> length (filter (\<lambda>entry. fst entry = k) al) = 1"
proof (induction al)
  case Nil
  then show ?case by simp
next
  case (Cons p al)
  show ?case
  proof (cases "fst p = k")
    case True
    with Cons.prems(1) have "k \<notin> fst ` set al" by simp
    then have "\<forall>q \<in> set al. fst q \<noteq> k" by blast
    then have "filter (\<lambda>entry. fst entry = k) al = []" by (simp add: filter_empty_conv)
    with True show ?thesis by simp
  next
    case False
    with Cons show ?thesis by (cases p) auto
  qed
qed

text \<open>Claim C8. Command classes whose metadata can be read are registered on a
  registry with one entry per name. The registration completes without an error and
  leaves one entry per name; a class that is followed by no class of the same name
  is the entry of its name, with its own descriptor, whether or not the name was
  registered before.\<close>

theorem addCommands_last_write_wins:
  assumes readable: "\<forall>Cmd \<in> set cmds. \<exists>info. reader (construct Cmd) = Inr info"
    and keys: "distinct (map fst (commands m))"
  shows "\<exists>m'. addCommands reader cmds m = Inr m'
           \<and> distinct (map fst (commands m'))
           \<and> (\<forall>before Cmd after info.
                 cmds = before @ Cmd # after \<and> reader (construct Cmd) = Inr info
                 \<and> (\<forall>Later \<in> set after. \<forall>later.
                       reader (construct Later) = Inr later \<longrightarrow> rc_name later \<noteq> rc_name info)
                 \<longrightarrow> map_of (commands m') (rc_name info) =
                       Some \<lparr>pc_name = rc_name info, pc_description = rc_description info,
                             pc_command = construct Cmd, pc_options = rc_options info\<rparr>
                     \<and> length (filter (\<lambda>entry. fst entry = rc_name info) (commands m')) = 1)"
proof -
  from readable have "\<forall>c \<in> set (map construct cmds). \<exists>info. reader c = Inr info" by simp
  then obtain m' where m': "registerAll reader (map construct cmds) m = Inr m'"
    using registerAll_succeeds by blast
  have d: "distinct (map fst (commands m'))"
    using registerAll_distinct [OF m' keys] .
  have last: "map_of (commands m') (rc_name info) =
          Some \<lparr>pc_name = rc_name info, pc_description = rc_description info,
             pc_command = construct Cmd, pc_options = rc_options info\<rparr>
        \<and> length (filter (\<lambda>entry. fst entry = rc_name info) (commands m')) = 1"
    if split: "cmds = before @ Cmd # after" and info: "reader (construct Cmd) = Inr info"
      and later: "\<forall>Later \<in> set after. \<forall>later.
          reader (construct Later) = Inr later \<longrightarrow> rc_name later \<noteq> rc_name info"
    for before Cmd after info
  proof -
    from m' split have "registerAll reader (map construct before @ construct Cmd # map construct after) m = Inr m'"
      by simp
    then obtain m1 where m1: "registerAll reader (map construct before) m = Inr m1"
      and rest: "registerAll reader (construct Cmd # map construct after) m1 = Inr m'"
      by (auto simp: registerAll_append split: sum.splits)
    let ?entry = "\<lparr>pc_name = rc_name info, pc_description = rc_description info,
             pc_command = construct Cmd, pc_options = rc_options info\<rparr>"
    let ?m2 = "m1\<lparr>commands := AList.update (rc_name info) ?entry (commands m1)\<rparr>"
    from rest info have tail: "registerAll reader (map construct after) ?m2 = Inr m'"
      by simp
    from later have "\<forall>c \<in> set (map construct after). \<forall>i. reader c = Inr i \<longrightarrow> rc_name i \<noteq> rc_name info"
      by auto
    from registerAll_other_names [OF tail this]
    have found: "map_of (commands m') (rc_name info) = Some ?entry"
      by (simp add: update_conv')
    with d show ?thesis by (simp add: one_entry_per_key)
  qed
  from m' d last show ?thesis
    unfolding addCommands_def by blast
qed

theorem addCommands_last_write_wins_witness:
  "readCommand pingStore (construct (exampleClass 0))
     = Inr \<lparr>rc_name = ''ping'', rc_description = ''first'', rc_options = []\<rparr>
   \<and> readCommand pingStore (construct (exampleClass 1))
     = Inr \<lparr>rc_name = ''ping'', rc_description = ''second'', rc_options = []\<rparr>
   \<and> distinct (map fst (commands (newMammot ''1'' None True :: (unit, string, string) Mammot)))
   \<and> (\<exists>m'. addCommands (readCommand pingStore) [exampleClass 0, exampleClass 1]
               (newMammot ''1'' None True) = Inr m'
          \<and> distinct (map fst (commands m'))
          \<and> map_of (commands m') ''ping'' =
               Some \<lparr>pc_name = ''ping'', pc_description = ''second'',
                     pc_command = construct (exampleClass 1), pc_options = []\<rparr>
          \<and> length (filter (\<lambda>entry. fst entry = ''ping'') (commands m')) = 1)"
proof -
  let ?m = "newMammot ''1'' None True :: (unit, string, string) Mammot"
  let ?second = "\<lparr>rc_name = ''ping'', rc_description = ''second'', rc_options = [] :: unit OptionMetadata list\<rparr>"
  have r0: "readCommand pingStore (construct (exampleClass 0))
     = Inr \<lparr>rc_name = ''ping'', rc_description = ''first'', rc_options = []\<rparr>"
    by (simp add: readCommand_def pingStore_def construct_def exampleClass_def)
  have r1: "readCommand pingStore (construct (exampleClass 1)) = Inr ?second"
    by (simp add: readCommand_def pingStore_def construct_def exampleClass_def)
  have readable: "\<forall>Cmd \<in> set [exampleClass 0, exampleClass 1].
      \<exists>info. readCommand pingStore (construct Cmd) = Inr info"
    using r0 r1 by simp
  have keys: "distinct (map fst (commands ?m))"
    by (simp add: newMammot_def)
  from addCommands_last_write_wins [OF readable keys]
  obtain m' where m': "addCommands (readCommand pingStore) [exampleClass 0, exampleClass 1] ?m = Inr m'"
    and d: "distinct (map fst (commands m'))"
    and w: "\<And>before Cmd after info.
                 [exampleClass 0, exampleClass 1] = before @ Cmd # after
                 \<and> readCommand pingStore (construct Cmd) = Inr info
                 \<and> (\<forall>Later \<in> set after. \<forall>later.
                       readCommand pingStore (construct Later) = Inr later \<longrightarrow> rc_name later \<noteq> rc_name info)
                 \<Longrightarrow> map_of (commands m') (rc_name info) =
                       Some \<lparr>pc_name = rc_name info, pc_description = rc_description info,
                             pc_command = construct Cmd, pc_options = rc_options info\<rparr>
                     \<and> length (filter (\<lambda>entry. fst entry = rc_name info) (commands m')) = 1"
    by blast
  from w [of "[exampleClass 0]" "exampleClass 1" "[]" ?second] r1
  have "map_of (commands m') ''ping'' =
               Some \<lparr>pc_name = ''ping'', pc_description = ''second'',
                     pc_command = construct (exampleClass 1), pc_options = []\<rparr>
          \<and> length (filter (\<lambda>entry. fst entry = ''ping'') (commands m')) = 1"
    by simp
  with r0 r1 keys m' d show ?thesis by blast
qed

section \<open>login\<close>

lemma reverseOptions_twice [simp]: "reverseOptions (reverseOptions command) = command"
  by (simp add: reverseOptions_def)

lemma map_of_reversed:
  "map_of (map (\<lambda>(name, command). (name, reverseOptions command)) al) k
     = map_option reverseOptions (map_of al k)"
  by (induction al) auto

text \<open>Claim C9. \<^verbatim>\<open>login\<close> leaves every entry of the registry with its options
  reversed; a second \<^verbatim>\<open>login\<close> restores the instance; and an invocation
  dispatched after \<^verbatim>\<open>login\<close> resolves its arguments from the reversed options.\<close>

theorem login_reverses_in_place:
  "commands (snd (login m)) =
     map (\<lambda>(name, command). (name, command\<lparr>pc_options := rev (pc_options command)\<rparr>)) (commands m)
   \<and> snd (login (snd (login m))) = m
   \<and> (\<forall>interaction found args.
         isCommand interaction \<and> map_of (commands m) (commandName interaction) = Some found
         \<and> resolveMetadata interaction (rev (pc_options found)) = Inr args
         \<and> run (pc_command found) interaction args = Inr ()
         \<longrightarrow> interactionCreate resolveMetadata (snd (login m)) interaction =
               ([Run (handlerClass (pc_command found)) args], Inr ()))"
proof (intro conjI allI impI)
  show "commands (snd (login m)) =
     map (\<lambda>(name, command). (name, command\<lparr>pc_options := rev (pc_options command)\<rparr>)) (commands m)"
    by (simp add: login_def reverseOptions_def)
next
  have "map ((\<lambda>(name, command). (name, reverseOptions command)) \<circ>
             (\<lambda>(name, command). (name, reverseOptions command))) al = al"
    for al :: "(string \<times> ('a, 'b, 'c) ParsedCommand) list"
    by (induction al) auto
  then show "snd (login (snd (login m))) = m"
    by (simp add: login_def)
next
  fix interaction found args
  assume a: "isCommand interaction \<and> map_of (commands m) (commandName interaction) = Some found
         \<and> resolveMetadata interaction (rev (pc_options found)) = Inr args
         \<and> run (pc_command found) interaction args = Inr ()"
  then have "map_of (commands (snd (login m))) (commandName interaction) = Some (reverseOptions found)"
    by (simp add: login_def map_of_reversed)
  with a show "interactionCreate resolveMetadata (snd (login m)) interaction =
               ([Run (handlerClass (pc_command found)) args], Inr ())"
    by (simp add: interactionCreate_def tryRun_def reverseOptions_def)
qed

theorem login_reverses_in_place_witness:
  "isCommand (exampleInteraction ''ban'')
   \<and> map_of (commands banMammot) (commandName (exampleInteraction ''ban'')) = Some banCommand
   \<and> optionNames (exampleInteraction ''ban'') (rev (pc_options banCommand)) = Inr [''who'', ''reason'']
   \<and> run (pc_command banCommand) (exampleInteraction ''ban'') [''who'', ''reason''] = Inr ()
   \<and> interactionCreate optionNames (snd (login banMammot)) (exampleInteraction ''ban'')
       = ([Run 0 [''who'', ''reason'']], Inr ())
   \<and> interactionCreate optionNames banMammot (exampleInteraction ''ban'')
       = ([Run 0 [''reason'', ''who'']], Inr ())
   \<and> commands (snd (login banMammot)) = [(''ban'', banCommand\<lparr>pc_options := rev collectedOptions\<rparr>)]
   \<and> snd (login (snd (login banMammot))) = banMammot"
proof -
  have h: "isCommand (exampleInteraction ''ban'')
     \<and> map_of (commands banMammot) (commandName (exampleInteraction ''ban'')) = Some banCommand
     \<and> optionNames (exampleInteraction ''ban'') (rev (pc_options banCommand)) = Inr [''who'', ''reason'']
     \<and> run (pc_command banCommand) (exampleInteraction ''ban'') [''who'', ''reason''] = Inr ()"
    by (simp add: exampleInteraction_def banMammot_def banCommand_def optionNames_def
        collectedOptions_def completes_def)
  note inst = login_reverses_in_place [where m = banMammot and resolveMetadata = optionNames]
  from inst have "isCommand (exampleInteraction ''ban'')
     \<and> map_of (commands banMammot) (commandName (exampleInteraction ''ban'')) = Some banCommand
     \<and> optionNames (exampleInteraction ''ban'') (rev (pc_options banCommand)) = Inr [''who'', ''reason'']
     \<and> run (pc_command banCommand) (exampleInteraction ''ban'') [''who'', ''reason''] = Inr ()
     \<longrightarrow> interactionCreate optionNames (snd (login banMammot)) (exampleInteraction ''ban'')
          = ([Run (handlerClass (pc_command banCommand)) [''who'', ''reason'']], Inr ())"
    by blast
  with h have 1: "interactionCreate optionNames (snd (login banMammot)) (exampleInteraction ''ban'')
       = ([Run 0 [''who'', ''reason'']], Inr ())"
    by (simp add: banCommand_def)
  have 2: "interactionCreate optionNames banMammot (exampleInteraction ''ban'')
       = ([Run 0 [''reason'', ''who'']], Inr ())"
    by (simp add: interactionCreate_def tryRun_def exampleInteraction_def banMammot_def
        banCommand_def optionNames_def collectedOptions_def completes_def)
  from inst have 3: "commands (snd (login banMammot)) = [(''ban'', banCommand\<lparr>pc_options := rev collectedOptions\<rparr>)]"
    by (simp add: banMammot_def banCommand_def)
  from inst have 4: "snd (login (snd (login banMammot))) = banMammot"
    by simp
  from h 1 2 3 4 show ?thesis by simp
qed

subsection \<open>The order in which options are collected\<close>

text \<open>The parameter decorators of one \<^verbatim>\<open>run\<close> method, applied rightmost first to
  a class without options, leave the options in the store in descending index order,
  and \<^verbatim>\<open>addCommands\<close> puts them into the registry in that order.\<close>

lemma option_collects:
  assumes "option name config target property index store = Inr store'"
  shows "\<exists>meta. opt_name meta = name \<and> opt_index meta = index
           \<and> storedOptions store' (classId target) = storedOptions store (classId target) @ [meta]"
  using assms
  by (auto simp: option_def addOption_def storedOptions_def
      split: if_splits sum.splits option.splits)

lemma applyOptions_collects:
  "applyOptions ds target store = Inr store' \<Longrightarrow>
     map opt_index (storedOptions store' (classId target))
       = map opt_index (storedOptions store (classId target)) @ map fst ds
     \<and> map opt_name (storedOptions store' (classId target))
       = map opt_name (storedOptions store (classId target)) @ map (fst \<circ> snd) ds"
proof (induction ds arbitrary: store)
  case Nil
  then show ?case by simp
next
  case (Cons d ds)
  obtain i name config where d: "d = (i, name, config)" by (cases d) auto
  from Cons.prems d obtain s1 where
    s1: "option name config target (PString ''run'') i store = Inr s1"
    and rest: "applyOptions ds target s1 = Inr store'"
    by (auto split: sum.splits)
  from option_collects [OF s1] obtain meta where
    meta: "opt_name meta = name" "opt_index meta = i"
      "storedOptions s1 (classId target) = storedOptions store (classId target) @ [meta]"
    by blast
  from Cons.IH [OF rest] meta d show ?case by simp
qed

lemma decorateRun_collects:
  assumes "decorateRun decs target store = Inr store'"
    and "storedOptions store (classId target) = []"
  shows "map opt_index (storedOptions store' (classId target)) = rev [0..<length decs]"
    and "map opt_name (storedOptions store' (classId target)) = rev (map fst decs)"
proof -
  let ?ds = "rev (zip [0..<length decs] decs)"
  have i: "map fst ?ds = rev [0..<length decs]"
    by (simp add: rev_map [symmetric])
  have "map snd (zip [0..<length decs] decs) = decs"
    by simp
  then have n: "map (fst \<circ> snd) ?ds = rev (map fst decs)"
    by (metis map_map rev_map)
  from assms(1) have "applyOptions ?ds target store = Inr store'"
    by (simp add: decorateRun_def)
  from applyOptions_collects [OF this] assms(2) i n
  show "map opt_index (storedOptions store' (classId target)) = rev [0..<length decs]"
    and "map opt_name (storedOptions store' (classId target)) = rev (map fst decs)"
    by simp_all
qed

lemma data_keeps_options:
  "data name description perm target store = Inr store'
     \<Longrightarrow> storedOptions store' c = storedOptions store c"
  by (auto simp: data_def addCommandData_def storedOptions_def split: if_splits option.splits)

lemma data_then_readCommand:
  "data name description perm target store = Inr store' \<Longrightarrow> handlerClass command = classId target
     \<Longrightarrow> readCommand store' command =
           Inr \<lparr>rc_name = name, rc_description = description,
                rc_options = storedOptions store' (classId target)\<rparr>"
  by (auto simp: data_def addCommandData_def readCommand_def storedOptions_def
      split: if_splits option.splits)

lemma registered_collected_order:
  assumes fresh: "storedOptions store0 (classId target) = []"
    and params: "decorateRun decs target store0 = Inr store1"
    and cls: "data name description perm target store1 = Inr store2"
    and same: "cc_classId Cmd = classId target"
    and reg: "addCommands (readCommand store2) [Cmd] m = Inr m'"
  shows "\<exists>found. map_of (commands m') name = Some found
           \<and> pc_name found = name \<and> pc_description found = description
           \<and> map opt_index (pc_options found) = rev [0..<length decs]
           \<and> map opt_name (pc_options found) = rev (map fst decs)
           \<and> sorted_wrt (>) (map opt_index (pc_options found))"
proof -
  let ?opts = "storedOptions store2 (classId target)"
  have opts: "?opts = storedOptions store1 (classId target)"
    using data_keeps_options [OF cls] .
  from same have "handlerClass (construct Cmd) = classId target"
    by (simp add: construct_def)
  from data_then_readCommand [OF cls this]
  have rd: "readCommand store2 (construct Cmd) =
      Inr \<lparr>rc_name = name, rc_description = description, rc_options = ?opts\<rparr>" .
  let ?found = "\<lparr>pc_name = name, pc_description = description,
                  pc_command = construct Cmd, pc_options = ?opts\<rparr>"
  from reg rd have "m' = m\<lparr>commands := AList.update name ?found (commands m)\<rparr>"
    by (simp add: addCommands_def)
  then have f: "map_of (commands m') name = Some ?found"
    by (simp add: update_conv')
  have idx: "map opt_index ?opts = rev [0..<length decs]"
    and nms: "map opt_name ?opts = rev (map fst decs)"
    using decorateRun_collects [OF params fresh] opts by simp_all
  have "sorted_wrt (\<lambda>x y. y < x) (rev [0..<length decs])"
    by (simp only: sorted_wrt_rev sorted_wrt_upt)
  with idx have "sorted_wrt (>) (map opt_index ?opts)" by simp
  with f idx nms show ?thesis by simp
qed

lemma banMammot_registered:
  "(case decorateRun [(''who'', exampleConfig None None), (''reason'', exampleConfig None None)]
           (exampleTarget [GuildMember, String]) Map.empty of
      Inl e \<Rightarrow> None
    | Inr store1 \<Rightarrow>
        (case data ''ban'' ''Ban a member'' None (exampleTarget [GuildMember, String]) store1 of
           Inl e \<Rightarrow> None
         | Inr store2 \<Rightarrow>
             (case addCommands (readCommand store2) [exampleClass 0] (newMammot ''1'' None True) of
                Inl e \<Rightarrow> None
              | Inr m \<Rightarrow> Some m)))
   = Some banMammot"
  by (simp add: decorateRun_def option_def chooseType_def getParamType_def addOption_def
      exampleTarget_def exampleConfig_def data_def addCommandData_def addCommands_def
      readCommand_def construct_def exampleClass_def newMammot_def banMammot_def
      banCommand_def collectedOptions_def)




end
